theory Spec2Isabelle
  imports Complex_Main
begin

section \<open>JavaScript Numbers\<close>

text \<open>
  The three simulation modules compute with JavaScript Numbers. A Number is modelled as
  an exact real or one of the three special values of IEEE-754 arithmetic. The operators
  below follow the special-value rules of the language (a zero divisor yields an infinity
  or NaN, never an exception; NaN absorbs; every comparison with NaN is false). Rounding,
  overflow and underflow of finite values and the sign of zero are not modelled: a finite
  result is the exact real result, and a zero divisor is read as positive zero. What the
  theory states is therefore about the formulas the code evaluates and about its
  special values; a property that turns on how a double rounds, underflows or overflows
  is outside it.
\<close>

datatype jsnum = Fin real | PInf | NInf | NaN

fun jneg :: "jsnum \<Rightarrow> jsnum" where
  "jneg (Fin x) = Fin (- x)"
| "jneg PInf = NInf"
| "jneg NInf = PInf"
| "jneg NaN = NaN"

fun jadd :: "jsnum \<Rightarrow> jsnum \<Rightarrow> jsnum" where
  "jadd (Fin x) (Fin y) = Fin (x + y)"
| "jadd (Fin x) PInf = PInf"
| "jadd (Fin x) NInf = NInf"
| "jadd PInf (Fin y) = PInf"
| "jadd NInf (Fin y) = NInf"
| "jadd PInf PInf = PInf"
| "jadd NInf NInf = NInf"
| "jadd _ _ = NaN"

definition jsub :: "jsnum \<Rightarrow> jsnum \<Rightarrow> jsnum" where
  "jsub x y = jadd x (jneg y)"

fun jmul :: "jsnum \<Rightarrow> jsnum \<Rightarrow> jsnum" where
  "jmul (Fin x) (Fin y) = Fin (x * y)"
| "jmul (Fin x) PInf = (if x = 0 then NaN else if 0 < x then PInf else NInf)"
| "jmul (Fin x) NInf = (if x = 0 then NaN else if 0 < x then NInf else PInf)"
| "jmul PInf (Fin y) = (if y = 0 then NaN else if 0 < y then PInf else NInf)"
| "jmul NInf (Fin y) = (if y = 0 then NaN else if 0 < y then NInf else PInf)"
| "jmul PInf PInf = PInf"
| "jmul PInf NInf = NInf"
| "jmul NInf PInf = NInf"
| "jmul NInf NInf = PInf"
| "jmul _ _ = NaN"

fun jdiv :: "jsnum \<Rightarrow> jsnum \<Rightarrow> jsnum" where
  "jdiv (Fin x) (Fin y) =
     (if y = 0 then (if x = 0 then NaN else if 0 < x then PInf else NInf)
      else Fin (x / y))"
| "jdiv (Fin x) PInf = Fin 0"
| "jdiv (Fin x) NInf = Fin 0"
| "jdiv PInf (Fin y) = (if 0 \<le> y then PInf else NInf)"
| "jdiv NInf (Fin y) = (if 0 \<le> y then NInf else PInf)"
| "jdiv _ _ = NaN"

text \<open>\<open>Math.abs\<close>.\<close>

fun jabs :: "jsnum \<Rightarrow> jsnum" where
  "jabs (Fin x) = Fin \<bar>x\<bar>"
| "jabs PInf = PInf"
| "jabs NInf = PInf"
| "jabs NaN = NaN"

text \<open>The comparisons greater-than, greater-or-equal and less-than.\<close>

fun jgt :: "jsnum \<Rightarrow> jsnum \<Rightarrow> bool" where
  "jgt (Fin x) (Fin y) = (y < x)"
| "jgt PInf (Fin y) = True"
| "jgt PInf NInf = True"
| "jgt (Fin x) NInf = True"
| "jgt _ _ = False"

fun jge :: "jsnum \<Rightarrow> jsnum \<Rightarrow> bool" where
  "jge (Fin x) (Fin y) = (y \<le> x)"
| "jge NaN _ = False"
| "jge _ NaN = False"
| "jge PInf _ = True"
| "jge _ NInf = True"
| "jge _ _ = False"

definition jlt :: "jsnum \<Rightarrow> jsnum \<Rightarrow> bool" where
  "jlt x y = jgt y x"

text \<open>\<open>Math.cos\<close>, \<open>Math.sin\<close>, \<open>Math.acos\<close>, \<open>Math.sqrt\<close>, \<open>Math.exp\<close>.\<close>

fun jcos :: "jsnum \<Rightarrow> jsnum" where
  "jcos (Fin x) = Fin (cos x)"
| "jcos _ = NaN"

fun jsin :: "jsnum \<Rightarrow> jsnum" where
  "jsin (Fin x) = Fin (sin x)"
| "jsin _ = NaN"

fun jacos :: "jsnum \<Rightarrow> jsnum" where
  "jacos (Fin x) = (if - 1 \<le> x \<and> x \<le> 1 then Fin (arccos x) else NaN)"
| "jacos _ = NaN"

fun jsqrt :: "jsnum \<Rightarrow> jsnum" where
  "jsqrt (Fin x) = (if x < 0 then NaN else Fin (sqrt x))"
| "jsqrt PInf = PInf"
| "jsqrt _ = NaN"

fun jexp :: "jsnum \<Rightarrow> jsnum" where
  "jexp (Fin x) = Fin (exp x)"
| "jexp PInf = PInf"
| "jexp NInf = Fin 0"
| "jexp NaN = NaN"

text \<open>
  \<open>Math.pow(x, n)\<close> and \<open>x ** n\<close> for the exponents the sources use, the literals 2
  and 3: a positive integer exponent.
\<close>

fun jpow :: "jsnum \<Rightarrow> nat \<Rightarrow> jsnum" where
  "jpow (Fin x) n = Fin (x ^ n)"
| "jpow PInf n = (if n = 0 then Fin 1 else PInf)"
| "jpow NInf n = (if n = 0 then Fin 1 else if odd n then NInf else PInf)"
| "jpow NaN n = (if n = 0 then Fin 1 else NaN)"

section \<open>Launch azimuth (\<open>src/sim/azimuth.js\<close>)\<close>

text \<open>The \<open>Error\<close> thrown by \<open>computeLaunchAzimuth\<close>.\<close>

datatype error = DomainError

definition EARTH_ROT_RATE :: jsnum where
  "EARTH_ROT_RATE = Fin 0.25068"

definition degToRad :: "jsnum \<Rightarrow> jsnum" where
  "degToRad degrees = jdiv (jmul degrees (Fin pi)) (Fin 180)"

definition radToDeg :: "jsnum \<Rightarrow> jsnum" where
  "radToDeg radians = jdiv (jmul radians (Fin 180)) (Fin pi)"

definition computeEarthRotationLongitude :: "jsnum \<Rightarrow> jsnum" where
  "computeEarthRotationLongitude timeMin = jmul EARTH_ROT_RATE timeMin"

definition computeLaunchAzimuth :: "jsnum \<Rightarrow> jsnum \<Rightarrow> error + jsnum" where
  "computeLaunchAzimuth latitudeDeg inclinationDeg =
     (let phi = degToRad latitudeDeg;
          inclination = degToRad inclinationDeg;
          cosPsi = jdiv (jcos inclination) (jcos phi)
      in if jgt (jabs cosPsi) (Fin 1) then Inl DomainError
         else Inr (radToDeg (jacos cosPsi)))"

definition isInclinationReachable :: "jsnum \<Rightarrow> jsnum \<Rightarrow> bool" where
  "isInclinationReachable latitudeDeg inclinationDeg =
     jge (jabs inclinationDeg) (jabs latitudeDeg)"

section \<open>Orbit propagation (\<open>src/sim/echoi.js\<close>)\<close>

definition MU :: jsnum where
  "MU = Fin (3.986004418 * 10 ^ 14)"

definition R_E :: jsnum where
  "R_E = Fin 6378137"

definition J2 :: jsnum where
  "J2 = Fin (1.08263 / 10 ^ 3)"

definition DEG :: jsnum where
  "DEG = jdiv (Fin 180) (Fin pi)"

definition RHO_0 :: jsnum where
  "RHO_0 = Fin 1.225"

definition SCALE_HEIGHT :: jsnum where
  "SCALE_HEIGHT = Fin 8500"

definition atmosphericDensity :: "jsnum \<Rightarrow> jsnum" where
  "atmosphericDensity altitude = jmul RHO_0 (jexp (jdiv (jneg altitude) SCALE_HEIGHT))"

definition meanMotion :: "jsnum \<Rightarrow> jsnum" where
  "meanMotion semiMajorAxis = jsqrt (jdiv MU (jpow semiMajorAxis 3))"

definition orbitalPeriod :: "jsnum \<Rightarrow> jsnum" where
  "orbitalPeriod semiMajorAxis = jdiv (jmul (Fin 2) (Fin pi)) (meanMotion semiMajorAxis)"

definition raanDriftRate :: "jsnum \<Rightarrow> jsnum \<Rightarrow> jsnum \<Rightarrow> jsnum" where
  "raanDriftRate a e inclination =
     (let n = meanMotion a
      in jdiv (jmul (jmul (jmul (jneg (Fin 1.5)) J2) (jpow (jdiv R_E a) 2))
                    (jmul n (jcos inclination)))
              (jpow (jsub (Fin 1) (jmul e e)) 2))"

definition perigeeDriftRate :: "jsnum \<Rightarrow> jsnum \<Rightarrow> jsnum \<Rightarrow> jsnum" where
  "perigeeDriftRate a e inclination =
     (let n = meanMotion a
      in jdiv (jmul (jmul (jmul (Fin 0.75) J2) (jpow (jdiv R_E a) 2))
                    (jmul n (jsub (jmul (Fin 5) (jpow (jcos inclination) 2)) (Fin 1))))
              (jpow (jsub (Fin 1) (jmul e e)) 2))"

definition semiMajorAxisDecay :: "jsnum \<Rightarrow> jsnum \<Rightarrow> jsnum \<Rightarrow> jsnum \<Rightarrow> jsnum" where
  "semiMajorAxisDecay a area mass dragCoeff =
     (let altitude = jsub a R_E;
          rho = atmosphericDensity altitude
      in jmul (jmul (jmul (jneg dragCoeff) (jdiv area mass)) rho) (jsqrt (jmul MU a)))"

section \<open>Reentry dynamics (the reentry module, \<open>src/unnamed/part_001\<close>)\<close>

text \<open>
  The module's constants. \<open>MU\<close> and \<open>RHO_0\<close> are declared by the orbit module as well;
  the ones of this module carry the suffix \<open>_reentry\<close>, as does its
  \<open>atmosphericDensity\<close>.
\<close>

definition EARTH_RADIUS :: jsnum where
  "EARTH_RADIUS = Fin 6371000"

definition MU_reentry :: jsnum where
  "MU_reentry = Fin (3.986004418 * 10 ^ 14)"

definition RHO_0_reentry :: jsnum where
  "RHO_0_reentry = Fin 1.225"

definition H_SCALE :: jsnum where
  "H_SCALE = Fin 7200"

definition atmosphericDensity_reentry :: "jsnum \<Rightarrow> jsnum" where
  "atmosphericDensity_reentry altitude =
     jmul RHO_0_reentry (jexp (jdiv (jneg altitude) H_SCALE))"

definition dragForce :: "jsnum \<Rightarrow> jsnum \<Rightarrow> jsnum \<Rightarrow> jsnum \<Rightarrow> jsnum" where
  "dragForce rho velocity Cd area =
     jmul (jmul (jmul (jmul (jmul (Fin 0.5) rho) velocity) velocity) Cd) area"

definition liftForce :: "jsnum \<Rightarrow> jsnum \<Rightarrow> jsnum \<Rightarrow> jsnum \<Rightarrow> jsnum" where
  "liftForce rho velocity Cl area =
     jmul (jmul (jmul (jmul (jmul (Fin 0.5) rho) velocity) velocity) Cl) area"

definition gravity :: "jsnum \<Rightarrow> jsnum" where
  "gravity altitude = (let r = jadd EARTH_RADIUS altitude in jdiv MU_reentry (jmul r r))"

text \<open>
  \<open>flightPathAngleRate\<close> takes one destructured object; its fields are the arguments
  here, in the order of the source. An absent \<open>bankAngle\<close> takes the default 0.
\<close>

definition flightPathAngleRate ::
  "jsnum \<Rightarrow> jsnum \<Rightarrow> jsnum \<Rightarrow> jsnum \<Rightarrow> jsnum \<Rightarrow> jsnum option \<Rightarrow> jsnum" where
  "flightPathAngleRate lift mass velocity altitude gamma bankAngle =
     (let bank = (case bankAngle of None \<Rightarrow> Fin 0 | Some b \<Rightarrow> b);
          r = jadd EARTH_RADIUS altitude;
          g = gravity altitude;
          liftTerm = jmul (jdiv lift (jmul mass velocity)) (jcos bank);
          gravityTerm = jmul (jsub (jdiv velocity r) (jdiv g velocity)) (jcos gamma)
      in jadd liftTerm gravityTerm)"

section \<open>Argument objects, results and the entry points\<close>

subsection \<open>\<open>runAzimuthSimulation\<close>\<close>

text \<open>
  The destructured argument object of \<open>runAzimuthSimulation\<close>; an absent
  \<open>timeSinceEpochMin\<close> takes the default 0.
\<close>

record azimuth_input =
  latitudeDeg :: jsnum
  inclinationDeg :: jsnum
  timeSinceEpochMin :: "jsnum option"

record azimuth_result =
  azimuthDeg :: jsnum
  longitudeShiftDeg :: jsnum
  feasible :: bool

text \<open>
  The azimuth is computed first, so its exception leaves the function before the
  result object is built.
\<close>

definition runAzimuthSimulation :: "azimuth_input \<Rightarrow> error + azimuth_result" where
  "runAzimuthSimulation inp =
     (case computeLaunchAzimuth (latitudeDeg inp) (inclinationDeg inp) of
        Inl e \<Rightarrow> Inl e
      | Inr az \<Rightarrow>
          Inr \<lparr> azimuthDeg = az,
                longitudeShiftDeg = computeEarthRotationLongitude
                  (case timeSinceEpochMin inp of None \<Rightarrow> Fin 0 | Some t \<Rightarrow> t),
                feasible = isInclinationReachable (latitudeDeg inp) (inclinationDeg inp) \<rparr>)"

subsection \<open>\<open>propagateOrbit\<close>\<close>

text \<open>
  The destructured argument object of \<open>propagateOrbit\<close>. An absent \<open>eccentricity\<close>,
  \<open>dragCoeff\<close> or \<open>revolutions\<close> takes its default. The object has no field for the
  two angle accumulators. The revolution count is a finite number: with an infinite one
  the loop of the source does not end.
\<close>

record orbit_config =
  semiMajorAxis :: jsnum
  eccentricity :: "jsnum option"
  inclination :: jsnum
  area :: jsnum
  mass :: jsnum
  dragCoeff :: "jsnum option"
  revolutions :: "real option"

definition eccentricity_of :: "orbit_config \<Rightarrow> jsnum" where
  "eccentricity_of cfg = (case orbit_config.eccentricity cfg of None \<Rightarrow> Fin 0.0 | Some e \<Rightarrow> e)"

definition dragCoeff_of :: "orbit_config \<Rightarrow> jsnum" where
  "dragCoeff_of cfg = (case orbit_config.dragCoeff cfg of None \<Rightarrow> Fin 2.2 | Some c \<Rightarrow> c)"

definition revolutions_of :: "orbit_config \<Rightarrow> real" where
  "revolutions_of cfg = (case orbit_config.revolutions cfg of None \<Rightarrow> 1000 | Some r \<Rightarrow> r)"

text \<open>One entry of the returned history.\<close>

record snapshot =
  orbit :: nat
  semiMajorAxis :: jsnum
  altitude :: jsnum
  raanDeg :: jsnum
  perigeeDeg :: jsnum

text \<open>
  The \<open>for\<close> loop of \<open>propagateOrbit\<close>: the counter \<open>N\<close>, the variables \<open>a\<close>,
  \<open>Omega\<close> and \<open>omega\<close>, and the history built so far.
\<close>

function propagate_loop ::
  "orbit_config \<Rightarrow> nat \<Rightarrow> jsnum \<Rightarrow> jsnum \<Rightarrow> jsnum \<Rightarrow> snapshot list \<Rightarrow> snapshot list" where
  "propagate_loop cfg N a Omega omega history =
     (if real N < revolutions_of cfg then
        (let T = orbitalPeriod a;
             da_dt = semiMajorAxisDecay a (orbit_config.area cfg) (orbit_config.mass cfg)
                       (dragCoeff_of cfg);
             dOmega_dt = raanDriftRate a (eccentricity_of cfg) (orbit_config.inclination cfg);
             domega_dt = perigeeDriftRate a (eccentricity_of cfg) (orbit_config.inclination cfg);
             a' = jadd a (jmul da_dt T);
             Omega' = jadd Omega (jmul dOmega_dt T);
             omega' = jadd omega (jmul domega_dt T)
         in propagate_loop cfg (Suc N) a' Omega' omega'
              (history @ [\<lparr> orbit = N, semiMajorAxis = a', altitude = jsub a' R_E,
                             raanDeg = jmul Omega' DEG, perigeeDeg = jmul omega' DEG \<rparr>]))
      else history)"
  by pat_completeness auto
termination
proof (relation "measure (\<lambda>(cfg, N, a, Omega, omega, history). nat \<lceil>revolutions_of cfg\<rceil> - N)")
  show "wf (measure (\<lambda>(cfg, N, a, Omega, omega, history). nat \<lceil>revolutions_of cfg\<rceil> - N))"
    by simp
next
  fix cfg :: orbit_config and N :: nat and a Omega omega :: jsnum
    and history :: "snapshot list" and T da dO dw a' O' w'
  assume "real N < revolutions_of cfg"
  then have "N < nat \<lceil>revolutions_of cfg\<rceil>" by linarith
  then show "((cfg, Suc N, a', O', w',
               history @ [\<lparr> orbit = N, semiMajorAxis = a', altitude = jsub a' R_E,
                              raanDeg = jmul O' DEG, perigeeDeg = jmul w' DEG \<rparr>]),
              (cfg, N, a, Omega, omega, history))
             \<in> measure (\<lambda>(cfg, N, a, Omega, omega, history). nat \<lceil>revolutions_of cfg\<rceil> - N)"
    by simp
qed

declare propagate_loop.simps [simp del]

definition propagateOrbit :: "orbit_config \<Rightarrow> snapshot list" where
  "propagateOrbit cfg = propagate_loop cfg 0 (orbit_config.semiMajorAxis cfg) (Fin 0) (Fin 0) []"

text \<open>
  Names for the values that one pass of the loop body computes: the variables after the
  three updates and the snapshot pushed.
\<close>

definition next_a :: "orbit_config \<Rightarrow> jsnum \<Rightarrow> jsnum" where
  "next_a cfg a =
     jadd a (jmul (semiMajorAxisDecay a (orbit_config.area cfg) (orbit_config.mass cfg)
                     (dragCoeff_of cfg)) (orbitalPeriod a))"

definition next_Omega :: "orbit_config \<Rightarrow> jsnum \<Rightarrow> jsnum \<Rightarrow> jsnum" where
  "next_Omega cfg a Omega =
     jadd Omega (jmul (raanDriftRate a (eccentricity_of cfg) (orbit_config.inclination cfg))
                   (orbitalPeriod a))"

definition next_omega :: "orbit_config \<Rightarrow> jsnum \<Rightarrow> jsnum \<Rightarrow> jsnum" where
  "next_omega cfg a omega =
     jadd omega (jmul (perigeeDriftRate a (eccentricity_of cfg) (orbit_config.inclination cfg))
                   (orbitalPeriod a))"

definition pushed :: "nat \<Rightarrow> jsnum \<Rightarrow> jsnum \<Rightarrow> jsnum \<Rightarrow> snapshot" where
  "pushed N a Omega omega =
     \<lparr> orbit = N, semiMajorAxis = a, altitude = jsub a R_E,
       raanDeg = jmul Omega DEG, perigeeDeg = jmul omega DEG \<rparr>"

subsection \<open>\<open>reentryStep\<close>\<close>

record reentry_state =
  gamma :: jsnum
  velocity :: jsnum
  altitude :: jsnum

record vehicle =
  mass :: jsnum
  area :: jsnum
  Cd :: jsnum
  Cl :: jsnum
  bankAngle :: "jsnum option"

definition reentryStep :: "reentry_state \<Rightarrow> vehicle \<Rightarrow> jsnum \<Rightarrow> reentry_state" where
  "reentryStep state vehicle dt =
     (let rho = atmosphericDensity_reentry (reentry_state.altitude state);
          drag = dragForce rho (velocity state) (Cd vehicle) (vehicle.area vehicle);
          lift = liftForce rho (velocity state) (Cl vehicle) (vehicle.area vehicle);
          gammaDot = flightPathAngleRate lift (vehicle.mass vehicle) (velocity state)
                       (reentry_state.altitude state) (gamma state) (bankAngle vehicle)
      in \<lparr> gamma = jadd (gamma state) (jmul gammaDot dt),
           velocity = jsub (velocity state) (jmul (jdiv drag (vehicle.mass vehicle)) dt),
           reentry_state.altitude = jadd (reentry_state.altitude state) (jmul (jmul (velocity state) (jsin (gamma state))) dt) \<rparr>)"

text \<open>
  The divisors of the divisions that one \<open>reentryStep\<close> performs, in the order of
  evaluation: \<open>-altitude / H_SCALE\<close> in \<open>atmosphericDensity\<close>, \<open>MU / (r * r)\<close> in
  \<open>gravity\<close>, \<open>lift / (mass * velocity)\<close>, \<open>velocity / r\<close> and \<open>g / velocity\<close> in
  \<open>flightPathAngleRate\<close>, and \<open>drag / vehicle.mass\<close> in \<open>reentryStep\<close> itself.
\<close>

definition reentryStep_divisors :: "reentry_state \<Rightarrow> vehicle \<Rightarrow> jsnum list" where
  "reentryStep_divisors state vehicle =
     (let r = jadd EARTH_RADIUS (reentry_state.altitude state)
      in [H_SCALE, jmul r r, jmul (vehicle.mass vehicle) (velocity state), r, velocity state,
          vehicle.mass vehicle])"

section \<open>The formulas of the specification\<close>

text \<open>
  The quantities of one revolution as the specification words them, over the reals:
  mean motion \<open>n = \<surd>(\<mu> / a\<^sup>3)\<close>, period \<open>2\<pi> / n\<close>, and the two secular J2 rates.
\<close>

definition spec_meanMotion :: "real \<Rightarrow> real" where
  "spec_meanMotion a = sqrt (3.986004418 * 10 ^ 14 / a ^ 3)"

definition spec_period :: "real \<Rightarrow> real" where
  "spec_period a = 2 * pi / spec_meanMotion a"

definition spec_raanRate :: "real \<Rightarrow> real \<Rightarrow> real \<Rightarrow> real" where
  "spec_raanRate a e i =
     - 1.5 * (1.08263 / 10 ^ 3) * (6378137 / a)\<^sup>2 * (spec_meanMotion a * cos i) / (1 - e * e)\<^sup>2"

definition spec_perigeeRate :: "real \<Rightarrow> real \<Rightarrow> real \<Rightarrow> real" where
  "spec_perigeeRate a e i =
     0.75 * (1.08263 / 10 ^ 3) * (6378137 / a)\<^sup>2 * (spec_meanMotion a * (5 * (cos i)\<^sup>2 - 1))
       / (1 - e * e)\<^sup>2"

text \<open>
  The step as the specification words it, over the reals: density
  \<open>\<rho>\<^sub>0 e\<^sup>-\<^sup>h\<^sup>/\<^sup>H\<close>, forces \<open>0.5 \<rho> V\<^sup>2 C A\<close>, the rate
  \<open>(lift / (mass V)) cos \<sigma> + (V / r - g / V) cos \<gamma>\<close> with \<open>r = R\<^sub>E + h\<close> and
  \<open>g = \<mu> / r\<^sup>2\<close>.
\<close>

definition spec_density :: "real \<Rightarrow> real" where
  "spec_density h = 1.225 * exp (- h / 7200)"

definition spec_force :: "real \<Rightarrow> real \<Rightarrow> real \<Rightarrow> real \<Rightarrow> real" where
  "spec_force rho V C A = 0.5 * rho * V\<^sup>2 * C * A"

definition spec_gravity_term :: "real \<Rightarrow> real \<Rightarrow> real \<Rightarrow> real" where
  "spec_gravity_term V h \<gamma> =
     (V / (6371000 + h) - (3.986004418 * 10 ^ 14 / (6371000 + h)\<^sup>2) / V) * cos \<gamma>"

definition spec_gammaDot :: "real \<Rightarrow> real \<Rightarrow> real \<Rightarrow> real \<Rightarrow> real \<Rightarrow> real \<Rightarrow> real" where
  "spec_gammaDot lift m V h \<gamma> \<sigma> = lift / (m * V) * cos \<sigma> + spec_gravity_term V h \<gamma>"

section \<open>Facts about Numbers\<close>

lemma jadd_NaN [simp]: "jadd x NaN = NaN" "jadd NaN x = NaN"
  by (cases x; simp)+

lemma jmul_NaN [simp]: "jmul x NaN = NaN" "jmul NaN x = NaN"
  by (cases x; simp)+

lemma jadd_zero_left [simp]: "jadd (Fin 0) x = x"
  by (cases x) simp_all

lemma jgt_NaN [simp]: "jgt x NaN = False" "jgt NaN x = False"
  by (cases x; simp)+

lemma jdiv_NaN [simp]: "jdiv x NaN = NaN" "jdiv NaN x = NaN"
  by (cases x; simp)+

lemma jgt_Fin_trans: "jgt (Fin x) y \<Longrightarrow> x < z \<Longrightarrow> jgt (Fin z) y"
  by (cases y) simp_all

lemma jgt_Fin_trans': "jgt y (Fin x) \<Longrightarrow> z < x \<Longrightarrow> jgt y (Fin z)"
  by (cases y) simp_all

lemma jmul_zero_right: "jmul x (Fin 0) = Fin 0 \<or> jmul x (Fin 0) = NaN"
  by (cases x) simp_all

lemma jmul_zero_or_NaN:
  "x = Fin 0 \<or> x = NaN \<Longrightarrow> jmul x y = Fin 0 \<or> jmul x y = NaN"
  by (cases y) auto

lemma jdiv_zero_or_NaN:
  "x = Fin 0 \<or> x = NaN \<Longrightarrow> y = Fin 0 \<or> y = NaN \<Longrightarrow> jdiv x y = NaN"
  by auto

lemma jmul_self_zero: "jmul r r = Fin 0 \<longleftrightarrow> r = Fin 0"
  by (cases r) simp_all

section \<open>Facts about degrees and cosines\<close>

lemma degToRad_Fin: "degToRad (Fin d) = Fin (d * pi / 180)"
  by (simp add: degToRad_def)

lemma cos_deg_pos: "\<bar>d\<bar> < 90 \<Longrightarrow> 0 < cos (d * pi / 180)"
proof -
  assume h: "\<bar>d\<bar> < 90"
  have "(- 90) * pi < d * pi"
    using h pi_gt_zero by (intro mult_strict_right_mono) (simp_all add: abs_less_iff)
  then have a: "- (pi / 2) < d * pi / 180" by simp
  have "d * pi < 90 * pi"
    using h pi_gt_zero by (intro mult_strict_right_mono) (simp_all add: abs_less_iff)
  then have b: "d * pi / 180 < pi / 2" by simp
  show ?thesis using a b by (rule cos_gt_zero_pi)
qed

lemma cos_deg_zero: "\<bar>d\<bar> = 90 \<Longrightarrow> cos (d * pi / 180) = 0"
proof -
  assume h: "\<bar>d\<bar> = 90"
  then have "d = 90 \<or> d = - 90" by linarith
  then show ?thesis
  proof
    assume "d = 90"
    then have "d * pi / 180 = pi / 2" by simp
    then show ?thesis by simp
  next
    assume "d = - 90"
    then have "d * pi / 180 = - (pi / 2)" by simp
    then show ?thesis by simp
  qed
qed

lemma cos_deg_less_iff:
  assumes "\<bar>a\<bar> \<le> 180" and "\<bar>b\<bar> \<le> 180"
  shows "cos (a * pi / 180) < cos (b * pi / 180) \<longleftrightarrow> \<bar>b\<bar> < \<bar>a\<bar>"
proof -
  have ea: "cos (a * pi / 180) = cos (\<bar>a\<bar> * pi / 180)"
    by (cases "0 \<le> a") (simp_all add: abs_if)
  have eb: "cos (b * pi / 180) = cos (\<bar>b\<bar> * pi / 180)"
    by (cases "0 \<le> b") (simp_all add: abs_if)
  have ra: "0 \<le> \<bar>a\<bar> * pi / 180" "\<bar>a\<bar> * pi / 180 \<le> pi"
    using assms(1) pi_gt_zero by (simp_all add: field_simps)
  have rb: "0 \<le> \<bar>b\<bar> * pi / 180" "\<bar>b\<bar> * pi / 180 \<le> pi"
    using assms(2) pi_gt_zero by (simp_all add: field_simps)
  have "cos (\<bar>a\<bar> * pi / 180) < cos (\<bar>b\<bar> * pi / 180) \<longleftrightarrow> \<bar>b\<bar> * pi / 180 < \<bar>a\<bar> * pi / 180"
    using ra rb by (simp add: cos_mono_less_eq)
  also have "\<dots> \<longleftrightarrow> \<bar>b\<bar> < \<bar>a\<bar>"
    using pi_gt_zero by (simp add: field_simps)
  finally show ?thesis by (simp only: ea eb)
qed

section \<open>Launch azimuth: reference values\<close>

lemma azimuth_equator_polar: "computeLaunchAzimuth (Fin 0) (Fin 90) = Inr (Fin 90)"
proof -
  have "cos ((90::real) * pi / 180) = 0" by (rule cos_deg_zero) simp
  then show ?thesis
    by (simp add: computeLaunchAzimuth_def degToRad_Fin radToDeg_def)
qed

lemma azimuth_same_angle:
  assumes "\<bar>d\<bar> < 90"
  shows "computeLaunchAzimuth (Fin d) (Fin d) = Inr (Fin 0)"
proof -
  have "cos (d * pi / 180) \<noteq> 0" using cos_deg_pos [OF assms] by simp
  then show ?thesis
    by (simp add: computeLaunchAzimuth_def degToRad_Fin radToDeg_def)
qed

lemma azimuth_unreachable:
  assumes "\<bar>lat\<bar> < 90" and "\<bar>inc\<bar> < \<bar>lat\<bar>"
  shows "computeLaunchAzimuth (Fin lat) (Fin inc) = Inl DomainError"
proof -
  have p: "0 < cos (lat * pi / 180)" using assms(1) by (rule cos_deg_pos)
  have "cos (lat * pi / 180) < cos (inc * pi / 180)"
    using assms by (subst cos_deg_less_iff) simp_all
  then have "1 < \<bar>cos (inc * pi / 180) / cos (lat * pi / 180)\<bar>"
    using p by (simp add: abs_if field_simps)
  then show ?thesis using p
    by (simp add: computeLaunchAzimuth_def degToRad_Fin)
qed

text \<open>
  C8. \<open>computeLaunchAzimuth\<close> returns exactly 90 degrees for latitude 0 and inclination 90,
  exactly 0 degrees for latitude 28.5 and inclination 28.5, and raises the domain error
  for latitude 30 and inclination 28.
\<close>

theorem computeLaunchAzimuth_reference_values:
  "computeLaunchAzimuth (Fin 0) (Fin 90) = Inr (Fin 90)
   \<and> computeLaunchAzimuth (Fin 28.5) (Fin 28.5) = Inr (Fin 0)
   \<and> computeLaunchAzimuth (Fin 30) (Fin 28) = Inl DomainError"
proof (intro conjI)
  show "computeLaunchAzimuth (Fin 0) (Fin 90) = Inr (Fin 90)"
    by (rule azimuth_equator_polar)
  show "computeLaunchAzimuth (Fin 28.5) (Fin 28.5) = Inr (Fin 0)"
    by (rule azimuth_same_angle) simp
  show "computeLaunchAzimuth (Fin 30) (Fin 28) = Inl DomainError"
    by (rule azimuth_unreachable) simp_all
qed

lemma azimuth_pole_unreachable:
  assumes "\<bar>lat\<bar> = 90" and "\<bar>inc\<bar> < 90"
  shows "computeLaunchAzimuth (Fin lat) (Fin inc) = Inl DomainError"
  using cos_deg_zero [OF assms(1)] cos_deg_pos [OF assms(2)]
  by (simp add: computeLaunchAzimuth_def degToRad_Fin)

section \<open>The composed entry point\<close>

lemma runAzimuthSimulation_raises:
  assumes "\<bar>lat\<bar> \<le> 90" and "\<bar>inc\<bar> < \<bar>lat\<bar>"
  shows "runAzimuthSimulation \<lparr> latitudeDeg = Fin lat, inclinationDeg = Fin inc,
           timeSinceEpochMin = t \<rparr> = Inl DomainError"
proof -
  have "computeLaunchAzimuth (Fin lat) (Fin inc) = Inl DomainError"
  proof (cases "\<bar>lat\<bar> < 90")
    case True
    then show ?thesis using assms(2) by (rule azimuth_unreachable)
  next
    case False
    with assms have "\<bar>lat\<bar> = 90" "\<bar>inc\<bar> < 90" by simp_all
    then show ?thesis by (rule azimuth_pole_unreachable)
  qed
  then show ?thesis by (simp add: runAzimuthSimulation_def)
qed

text \<open>
  C1. The claim: for every infeasible input, \<open>runAzimuthSimulation\<close> returns a record
  whose \<open>feasible\<close> field is false and no exception reaches the caller. The code calls
  \<open>computeLaunchAzimuth\<close> before it builds the record: at latitude 30 and inclination
  28 the input is infeasible and the call raises the domain error.
\<close>

theorem runAzimuthSimulation_infeasible_throws:
  "\<not> isInclinationReachable (Fin 30) (Fin 28)
   \<and> runAzimuthSimulation \<lparr> latitudeDeg = Fin 30, inclinationDeg = Fin 28,
        timeSinceEpochMin = None \<rparr> = Inl DomainError"
proof
  show "\<not> isInclinationReachable (Fin 30) (Fin 28)"
    by (simp add: isInclinationReachable_def)
  show "runAzimuthSimulation \<lparr> latitudeDeg = Fin 30, inclinationDeg = Fin 28,
        timeSinceEpochMin = None \<rparr> = Inl DomainError"
    by (rule runAzimuthSimulation_raises) simp_all
qed

section \<open>Atmospheric density on finite altitudes\<close>

lemma density_Fin: "atmosphericDensity (Fin h) = Fin (1.225 * exp (- h / 8500))"
  by (simp add: atmosphericDensity_def RHO_0_def SCALE_HEIGHT_def)

lemma density_reentry_Fin: "atmosphericDensity_reentry (Fin h) = Fin (1.225 * exp (- h / 7200))"
  by (simp add: atmosphericDensity_reentry_def RHO_0_reentry_def H_SCALE_def)

section \<open>The reentry step\<close>

lemma force_Fin:
  "dragForce (Fin rho) (Fin V) (Fin C) (Fin A) = Fin (spec_force rho V C A)"
  "liftForce (Fin rho) (Fin V) (Fin C) (Fin A) = Fin (spec_force rho V C A)"
  by (simp_all add: dragForce_def liftForce_def spec_force_def power2_eq_square)

lemma density_reentry_spec: "atmosphericDensity_reentry (Fin h) = Fin (spec_density h)"
  by (simp add: density_reentry_Fin spec_density_def)

lemma gravity_Fin:
  "h \<noteq> - 6371000 \<Longrightarrow> gravity (Fin h) = Fin (3.986004418 * 10 ^ 14 / (6371000 + h)\<^sup>2)"
  by (simp add: gravity_def EARTH_RADIUS_def MU_reentry_def Let_def power2_eq_square
      add_eq_0_iff)

lemma flightPathAngleRate_Fin:
  assumes "m \<noteq> 0" and "V \<noteq> 0" and "h \<noteq> - 6371000"
  shows "flightPathAngleRate (Fin L) (Fin m) (Fin V) (Fin h) (Fin \<gamma>) (map_option Fin bo)
         = Fin (spec_gammaDot L m V h \<gamma> (case bo of None \<Rightarrow> 0 | Some \<sigma> \<Rightarrow> \<sigma>))"
proof -
  have r: "6371000 + h \<noteq> 0" using assms(3) by linarith
  show ?thesis using assms(1,2) r
    by (cases bo)
       (simp_all add: flightPathAngleRate_def gravity_Fin [OF assms(3)] EARTH_RADIUS_def
          Let_def jsub_def spec_gammaDot_def spec_gravity_term_def)
qed

lemma reentryStep_altitude:
  "reentry_state.altitude (reentryStep s v dt)
   = jadd (reentry_state.altitude s) (jmul (jmul (velocity s) (jsin (gamma s))) dt)"
  by (simp add: reentryStep_def Let_def)

lemma reentryStep_velocity:
  "velocity (reentryStep s v dt)
   = jsub (velocity s)
       (jmul (jdiv (dragForce (atmosphericDensity_reentry (reentry_state.altitude s))
                      (velocity s) (Cd v) (vehicle.area v)) (vehicle.mass v)) dt)"
  by (simp add: reentryStep_def Let_def)

lemma reentryStep_gamma:
  "gamma (reentryStep s v dt)
   = jadd (gamma s)
       (jmul (flightPathAngleRate
                (liftForce (atmosphericDensity_reentry (reentry_state.altitude s))
                   (velocity s) (Cl v) (vehicle.area v))
                (vehicle.mass v) (velocity s) (reentry_state.altitude s) (gamma s)
                (bankAngle v)) dt)"
  by (simp add: reentryStep_def Let_def)

lemma reentryStep_Fin:
  assumes "m \<noteq> 0" and "V \<noteq> 0" and "h \<noteq> - 6371000"
  shows "reentryStep \<lparr> gamma = Fin \<gamma>, velocity = Fin V, altitude = Fin h \<rparr>
           \<lparr> mass = Fin m, area = Fin A, Cd = Fin cd, Cl = Fin cl,
              bankAngle = map_option Fin bo \<rparr> (Fin dt)
         = \<lparr> gamma = Fin (\<gamma> + spec_gammaDot (spec_force (spec_density h) V cl A) m V h \<gamma>
                               (case bo of None \<Rightarrow> 0 | Some \<sigma> \<Rightarrow> \<sigma>) * dt),
              velocity = Fin (V - spec_force (spec_density h) V cd A / m * dt),
              altitude = Fin (h + V * sin \<gamma> * dt) \<rparr>"
  using assms(1)
  by (simp add: reentryStep_def Let_def density_reentry_spec force_Fin
      flightPathAngleRate_Fin [OF assms] jsub_def)


text \<open>
  C4. For every input state and time step, \<open>reentryStep\<close> returns
  \<open>\<gamma> + \<gamma>' dt\<close>, \<open>V - (drag / mass) dt\<close> and \<open>altitude + V sin \<gamma> dt\<close>, where the
  altitude term uses the velocity and the flight-path angle of the input state, not the
  updated ones. The first three conjuncts hold for all Numbers; the last gives the values
  as real formulas when no divisor is zero.
\<close>

theorem reentryStep_update:
  "gamma (reentryStep s v dt)
     = jadd (gamma s)
         (jmul (flightPathAngleRate
                  (liftForce (atmosphericDensity_reentry (reentry_state.altitude s))
                     (velocity s) (Cl v) (vehicle.area v))
                  (vehicle.mass v) (velocity s) (reentry_state.altitude s) (gamma s)
                  (bankAngle v)) dt)
   \<and> velocity (reentryStep s v dt)
     = jsub (velocity s)
         (jmul (jdiv (dragForce (atmosphericDensity_reentry (reentry_state.altitude s))
                        (velocity s) (Cd v) (vehicle.area v)) (vehicle.mass v)) dt)
   \<and> reentry_state.altitude (reentryStep s v dt)
     = jadd (reentry_state.altitude s) (jmul (jmul (velocity s) (jsin (gamma s))) dt)
   \<and> (m \<noteq> 0 \<and> V \<noteq> 0 \<and> h \<noteq> - 6371000 \<longrightarrow>
        reentryStep \<lparr> gamma = Fin \<gamma>, velocity = Fin V, altitude = Fin h \<rparr>
          \<lparr> mass = Fin m, area = Fin A, Cd = Fin cd, Cl = Fin cl,
             bankAngle = map_option Fin bo \<rparr> (Fin \<tau>)
        = \<lparr> gamma = Fin (\<gamma> + spec_gammaDot (spec_force (spec_density h) V cl A) m V h \<gamma>
                              (case bo of None \<Rightarrow> 0 | Some \<sigma> \<Rightarrow> \<sigma>) * \<tau>),
             velocity = Fin (V - spec_force (spec_density h) V cd A / m * \<tau>),
             altitude = Fin (h + V * sin \<gamma> * \<tau>) \<rparr>)"
  by (intro conjI impI reentryStep_gamma reentryStep_velocity reentryStep_altitude
      reentryStep_Fin) simp_all

theorem reentryStep_update_witness:
  "(2::real) \<noteq> 0 \<and> (100::real) \<noteq> 0 \<and> (0::real) \<noteq> - 6371000
   \<and> reentryStep \<lparr> gamma = Fin 0, velocity = Fin 100, altitude = Fin 0 \<rparr>
         \<lparr> mass = Fin 2, area = Fin 1, Cd = Fin 1, Cl = Fin 0, bankAngle = None \<rparr> (Fin 1)
       = \<lparr> gamma = Fin (100 / 6371000 - 3.986004418 * 10 ^ 14 / 6371000\<^sup>2 / 100),
            velocity = Fin (100 - 0.5 * 1.225 * 100\<^sup>2 / 2),
            altitude = Fin 0 \<rparr>"
  using reentryStep_update [of _ _ _ 2 100 0 0 1 1 0 None 1]
  by (simp add: spec_gammaDot_def spec_gravity_term_def spec_force_def spec_density_def)

text \<open>
  C2. The claim: with lift and drag both zero, one \<open>reentryStep\<close> leaves \<open>\<gamma>\<close> and
  the velocity unchanged and changes the altitude by \<open>V sin \<gamma> dt\<close>. The rate of \<open>\<gamma>\<close>
  keeps its gravity term \<open>(V / r - g / V) cos \<gamma>\<close>: with zero drag and lift
  coefficients, \<open>\<gamma> = 0\<close>, velocity 100 and altitude 0, the angle changes.
\<close>

theorem reentryStep_no_forces_changes_gamma:
  "liftForce (atmosphericDensity_reentry (Fin 0)) (Fin 100) (Fin 0) (Fin 1) = Fin 0
   \<and> dragForce (atmosphericDensity_reentry (Fin 0)) (Fin 100) (Fin 0) (Fin 1) = Fin 0
   \<and> gamma (reentryStep \<lparr> gamma = Fin 0, velocity = Fin 100, altitude = Fin 0 \<rparr>
        \<lparr> mass = Fin 1, area = Fin 1, Cd = Fin 0, Cl = Fin 0, bankAngle = None \<rparr> (Fin 1))
     \<noteq> Fin 0"
proof -
  have "reentryStep \<lparr> gamma = Fin 0, velocity = Fin 100, altitude = Fin 0 \<rparr>
          \<lparr> mass = Fin 1, area = Fin 1, Cd = Fin 0, Cl = Fin 0,
             bankAngle = map_option Fin None \<rparr> (Fin 1)
        = \<lparr> gamma = Fin (0 + spec_gammaDot (spec_force (spec_density 0) 100 0 1) 1 100 0 0
                              (case None of None \<Rightarrow> 0 | Some \<sigma> \<Rightarrow> \<sigma>) * 1),
             velocity = Fin (100 - spec_force (spec_density 0) 100 0 1 / 1 * 1),
             altitude = Fin (0 + 100 * sin 0 * 1) \<rparr>"
    by (rule reentryStep_Fin) simp_all
  then show ?thesis
    by (simp add: density_reentry_spec force_Fin spec_force_def spec_gammaDot_def
        spec_gravity_term_def)
qed

text \<open>
  C2, amended. With lift and drag both zero, the altitude changes by exactly
  \<open>V sin \<gamma> dt\<close>; the velocity is unchanged when the mass is not zero; and \<open>\<gamma>\<close>
  changes by the gravity term \<open>(V / r - g / V) cos \<gamma> dt\<close> when mass, velocity and
  \<open>r = EARTH_RADIUS + altitude\<close> are not zero.
\<close>

theorem reentryStep_no_forces:
  assumes "liftForce (atmosphericDensity_reentry (Fin h)) (Fin V) (Fin cl) (Fin A) = Fin 0"
    and "dragForce (atmosphericDensity_reentry (Fin h)) (Fin V) (Fin cd) (Fin A) = Fin 0"
  shows "reentry_state.altitude
           (reentryStep \<lparr> gamma = Fin \<gamma>, velocity = Fin V, altitude = Fin h \<rparr>
              \<lparr> mass = Fin m, area = Fin A, Cd = Fin cd, Cl = Fin cl,
                 bankAngle = map_option Fin bo \<rparr> (Fin dt))
         = Fin (h + V * sin \<gamma> * dt)
       \<and> (m \<noteq> 0 \<longrightarrow>
            velocity
              (reentryStep \<lparr> gamma = Fin \<gamma>, velocity = Fin V, altitude = Fin h \<rparr>
                 \<lparr> mass = Fin m, area = Fin A, Cd = Fin cd, Cl = Fin cl,
                    bankAngle = map_option Fin bo \<rparr> (Fin dt))
            = Fin V)
       \<and> (m \<noteq> 0 \<and> V \<noteq> 0 \<and> h \<noteq> - 6371000 \<longrightarrow>
            gamma
              (reentryStep \<lparr> gamma = Fin \<gamma>, velocity = Fin V, altitude = Fin h \<rparr>
                 \<lparr> mass = Fin m, area = Fin A, Cd = Fin cd, Cl = Fin cl,
                    bankAngle = map_option Fin bo \<rparr> (Fin dt))
            = Fin (\<gamma> + spec_gravity_term V h \<gamma> * dt))"
proof (intro conjI impI)
  show "reentry_state.altitude
           (reentryStep \<lparr> gamma = Fin \<gamma>, velocity = Fin V, altitude = Fin h \<rparr>
              \<lparr> mass = Fin m, area = Fin A, Cd = Fin cd, Cl = Fin cl,
                 bankAngle = map_option Fin bo \<rparr> (Fin dt))
         = Fin (h + V * sin \<gamma> * dt)"
    by (simp add: reentryStep_altitude)
next
  assume "m \<noteq> 0"
  then show "velocity
              (reentryStep \<lparr> gamma = Fin \<gamma>, velocity = Fin V, altitude = Fin h \<rparr>
                 \<lparr> mass = Fin m, area = Fin A, Cd = Fin cd, Cl = Fin cl,
                    bankAngle = map_option Fin bo \<rparr> (Fin dt))
            = Fin V"
    using assms(2) by (simp add: reentryStep_velocity jsub_def)
next
  assume h: "m \<noteq> 0 \<and> V \<noteq> 0 \<and> h \<noteq> - 6371000"
  have l: "spec_force (spec_density h) V cl A = 0"
    using assms(1) by (simp add: density_reentry_spec force_Fin)
  show "gamma
              (reentryStep \<lparr> gamma = Fin \<gamma>, velocity = Fin V, altitude = Fin h \<rparr>
                 \<lparr> mass = Fin m, area = Fin A, Cd = Fin cd, Cl = Fin cl,
                    bankAngle = map_option Fin bo \<rparr> (Fin dt))
            = Fin (\<gamma> + spec_gravity_term V h \<gamma> * dt)"
    using h by (simp add: reentryStep_Fin l spec_gammaDot_def)
qed

theorem reentryStep_no_forces_witness:
  "liftForce (atmosphericDensity_reentry (Fin 0)) (Fin 100) (Fin 0) (Fin 1) = Fin 0
   \<and> dragForce (atmosphericDensity_reentry (Fin 0)) (Fin 100) (Fin 0) (Fin 1) = Fin 0
   \<and> (1::real) \<noteq> 0 \<and> (100::real) \<noteq> 0 \<and> (0::real) \<noteq> - 6371000
   \<and> reentry_state.altitude
       (reentryStep \<lparr> gamma = Fin 0, velocity = Fin 100, altitude = Fin 0 \<rparr>
          \<lparr> mass = Fin 1, area = Fin 1, Cd = Fin 0, Cl = Fin 0, bankAngle = None \<rparr> (Fin 1))
     = Fin 0
   \<and> velocity
       (reentryStep \<lparr> gamma = Fin 0, velocity = Fin 100, altitude = Fin 0 \<rparr>
          \<lparr> mass = Fin 1, area = Fin 1, Cd = Fin 0, Cl = Fin 0, bankAngle = None \<rparr> (Fin 1))
     = Fin 100
   \<and> gamma
       (reentryStep \<lparr> gamma = Fin 0, velocity = Fin 100, altitude = Fin 0 \<rparr>
          \<lparr> mass = Fin 1, area = Fin 1, Cd = Fin 0, Cl = Fin 0, bankAngle = None \<rparr> (Fin 1))
     = Fin (100 / 6371000 - 3.986004418 * 10 ^ 14 / 6371000\<^sup>2 / 100)"
proof -
  have l: "liftForce (atmosphericDensity_reentry (Fin 0)) (Fin 100) (Fin 0) (Fin 1) = Fin 0"
    by (simp add: density_reentry_spec force_Fin spec_force_def)
  have d: "dragForce (atmosphericDensity_reentry (Fin 0)) (Fin 100) (Fin 0) (Fin 1) = Fin 0"
    by (simp add: density_reentry_spec force_Fin spec_force_def)
  show ?thesis
    using l d reentryStep_no_forces [OF l d, of 0 1 None 1]
    by (simp add: spec_gravity_term_def)
qed


section \<open>The divisions of the reentry step\<close>

lemma reentryStep_divisors_Fin:
  "reentryStep_divisors \<lparr> gamma = g, velocity = Fin V, altitude = Fin h \<rparr>
     \<lparr> mass = Fin m, area = a, Cd = c, Cl = l, bankAngle = b \<rparr>
   = [Fin 7200, Fin ((6371000 + h) * (6371000 + h)), Fin (m * V), Fin (6371000 + h), Fin V,
      Fin m]"
  by (simp add: reentryStep_divisors_def EARTH_RADIUS_def H_SCALE_def Let_def)

text \<open>
  C10. The claim: with velocity and mass not zero, every division of \<open>reentryStep\<close> and
  \<open>flightPathAngleRate\<close> has a nonzero divisor. At altitude \<open>-EARTH_RADIUS\<close> the radius
  \<open>r\<close> is zero: \<open>velocity / r\<close> and \<open>MU / (r * r)\<close> divide by zero and the new \<open>\<gamma>\<close>
  is NaN.
\<close>

theorem reentryStep_zero_radius:
  "velocity \<lparr> gamma = Fin 0, velocity = Fin 1, altitude = Fin (- 6371000) \<rparr> \<noteq> Fin 0
   \<and> vehicle.mass \<lparr> mass = Fin 1, area = Fin 1, Cd = Fin 1, Cl = Fin 1, bankAngle = None \<rparr>
       \<noteq> Fin 0
   \<and> Fin 0 \<in> set (reentryStep_divisors
                     \<lparr> gamma = Fin 0, velocity = Fin 1, altitude = Fin (- 6371000) \<rparr>
                     \<lparr> mass = Fin 1, area = Fin 1, Cd = Fin 1, Cl = Fin 1,
                        bankAngle = None \<rparr>)
   \<and> gamma (reentryStep \<lparr> gamma = Fin 0, velocity = Fin 1, altitude = Fin (- 6371000) \<rparr>
        \<lparr> mass = Fin 1, area = Fin 1, Cd = Fin 1, Cl = Fin 1, bankAngle = None \<rparr> (Fin 1))
     = NaN"
  by (simp add: reentryStep_divisors_Fin reentryStep_gamma flightPathAngleRate_def
      gravity_def EARTH_RADIUS_def MU_reentry_def Let_def jsub_def density_reentry_spec
      force_Fin)

lemma radius_zero: "jadd EARTH_RADIUS h = Fin 0 \<longleftrightarrow> h = Fin (- 6371000)"
  by (cases h) (auto simp: EARTH_RADIUS_def)

lemma liftForce_at_rest:
  "liftForce rho (Fin 0) C A = Fin 0 \<or> liftForce rho (Fin 0) C A = NaN"
  unfolding liftForce_def
  by (intro jmul_zero_or_NaN jmul_zero_right)

lemma flightPathAngleRate_at_rest:
  "L = Fin 0 \<or> L = NaN \<Longrightarrow> flightPathAngleRate L m (Fin 0) h g b = NaN"
proof -
  assume l: "L = Fin 0 \<or> L = NaN"
  have "jdiv L (jmul m (Fin 0)) = NaN"
    using l jmul_zero_right [of m] by (rule jdiv_zero_or_NaN)
  then show ?thesis by (simp add: flightPathAngleRate_def Let_def)
qed

text \<open>
  C10, amended. When the velocity, the mass and their product \<open>mass * velocity\<close> as
  the code computes it are not zero and the altitude is not \<open>-EARTH_RADIUS\<close>, every
  division of the step has a nonzero divisor. The code has no guard: with velocity zero
  a divisor is zero and the new \<open>\<gamma>\<close> is NaN, whatever the other values are.
\<close>

theorem reentryStep_divisions:
  "(velocity s \<noteq> Fin 0 \<and> vehicle.mass v \<noteq> Fin 0
    \<and> jmul (vehicle.mass v) (velocity s) \<noteq> Fin 0
    \<and> reentry_state.altitude s \<noteq> Fin (- 6371000)
    \<longrightarrow> Fin 0 \<notin> set (reentryStep_divisors s v))
   \<and> (velocity s = Fin 0
    \<longrightarrow> Fin 0 \<in> set (reentryStep_divisors s v) \<and> gamma (reentryStep s v dt) = NaN)"
proof (intro conjI impI)
  assume h: "velocity s \<noteq> Fin 0 \<and> vehicle.mass v \<noteq> Fin 0
    \<and> jmul (vehicle.mass v) (velocity s) \<noteq> Fin 0
    \<and> reentry_state.altitude s \<noteq> Fin (- 6371000)"
  then have r: "jadd EARTH_RADIUS (reentry_state.altitude s) \<noteq> Fin 0"
    by (simp add: radius_zero)
  then have "jmul (jadd EARTH_RADIUS (reentry_state.altitude s))
               (jadd EARTH_RADIUS (reentry_state.altitude s)) \<noteq> Fin 0"
    by (simp add: jmul_self_zero)
  with h r show "Fin 0 \<notin> set (reentryStep_divisors s v)"
    by (auto simp: reentryStep_divisors_def Let_def H_SCALE_def)
next
  assume z: "velocity s = Fin 0"
  then show "Fin 0 \<in> set (reentryStep_divisors s v)"
    by (simp add: reentryStep_divisors_def Let_def)
  show "gamma (reentryStep s v dt) = NaN"
    unfolding reentryStep_gamma z
    by (simp add: flightPathAngleRate_at_rest [OF liftForce_at_rest])
qed

theorem reentryStep_divisions_witness:
  "velocity \<lparr> gamma = Fin 0, velocity = Fin 100, altitude = Fin 0 \<rparr> \<noteq> Fin 0
   \<and> vehicle.mass \<lparr> mass = Fin 2, area = Fin 1, Cd = Fin 1, Cl = Fin 1, bankAngle = None \<rparr>
       \<noteq> Fin 0
   \<and> jmul (Fin 2) (Fin 100) \<noteq> Fin 0
   \<and> Fin (0::real) \<noteq> Fin (- 6371000)
   \<and> Fin 0 \<notin> set (reentryStep_divisors
                     \<lparr> gamma = Fin 0, velocity = Fin 100, altitude = Fin 0 \<rparr>
                     \<lparr> mass = Fin 2, area = Fin 1, Cd = Fin 1, Cl = Fin 1,
                        bankAngle = None \<rparr>)
   \<and> Fin 0 \<in> set (reentryStep_divisors
                     \<lparr> gamma = Fin 0, velocity = Fin 0, altitude = Fin 0 \<rparr>
                     \<lparr> mass = Fin 2, area = Fin 1, Cd = Fin 1, Cl = Fin 1,
                        bankAngle = None \<rparr>)
   \<and> gamma (reentryStep \<lparr> gamma = Fin 0, velocity = Fin 0, altitude = Fin 0 \<rparr>
         \<lparr> mass = Fin 2, area = Fin 1, Cd = Fin 1, Cl = Fin 1, bankAngle = None \<rparr> (Fin 1))
       = NaN"
  using reentryStep_divisions
      [of "\<lparr> gamma = Fin 0, velocity = Fin 100, altitude = Fin 0 \<rparr>"
          "\<lparr> mass = Fin 2, area = Fin 1, Cd = Fin 1, Cl = Fin 1, bankAngle = None \<rparr>"]
    reentryStep_divisions
      [of "\<lparr> gamma = Fin 0, velocity = Fin 0, altitude = Fin 0 \<rparr>"
          "\<lparr> mass = Fin 2, area = Fin 1, Cd = Fin 1, Cl = Fin 1, bankAngle = None \<rparr>" "Fin 1"]
  by simp

section \<open>The propagation loop\<close>

lemma loop_stop:
  "\<not> real N < revolutions_of cfg \<Longrightarrow> propagate_loop cfg N a Omega omega history = history"
  by (subst propagate_loop.simps) simp

lemma loop_step:
  "real N < revolutions_of cfg \<Longrightarrow>
   propagate_loop cfg N a Omega omega history
   = propagate_loop cfg (Suc N) (next_a cfg a) (next_Omega cfg a Omega) (next_omega cfg a omega)
       (history @ [pushed N (next_a cfg a) (next_Omega cfg a Omega) (next_omega cfg a omega)])"
  by (subst propagate_loop.simps)
     (simp add: Let_def next_a_def next_Omega_def next_omega_def pushed_def)

lemma loop_append:
  "propagate_loop cfg N a Omega omega (h1 @ h2) = h1 @ propagate_loop cfg N a Omega omega h2"
proof (induction "nat \<lceil>revolutions_of cfg\<rceil> - N" arbitrary: N a Omega omega h2)
  case 0
  then have "\<not> real N < revolutions_of cfg" by linarith
  then show ?case by (simp add: loop_stop)
next
  case (Suc n)
  show ?case
  proof (cases "real N < revolutions_of cfg")
    case True
    have "n = nat \<lceil>revolutions_of cfg\<rceil> - Suc N" using Suc.hyps(2) by simp
    from Suc.hyps(1) [OF this]
    have "propagate_loop cfg (Suc N) (next_a cfg a) (next_Omega cfg a Omega)
            (next_omega cfg a omega)
            (h1 @ (h2 @ [pushed N (next_a cfg a) (next_Omega cfg a Omega)
                           (next_omega cfg a omega)]))
          = h1 @ propagate_loop cfg (Suc N) (next_a cfg a) (next_Omega cfg a Omega)
                   (next_omega cfg a omega)
                   (h2 @ [pushed N (next_a cfg a) (next_Omega cfg a Omega)
                            (next_omega cfg a omega)])" .
    then show ?thesis by (simp add: loop_step [OF True])
  next
    case False
    then show ?thesis by (simp add: loop_stop)
  qed
qed

lemma loop_unfold:
  "real N < revolutions_of cfg \<Longrightarrow>
   propagate_loop cfg N a Omega omega []
   = pushed N (next_a cfg a) (next_Omega cfg a Omega) (next_omega cfg a omega)
     # propagate_loop cfg (Suc N) (next_a cfg a) (next_Omega cfg a Omega)
         (next_omega cfg a omega) []"
  using loop_append [of cfg "Suc N" _ _ _ "[pushed N (next_a cfg a) (next_Omega cfg a Omega) (next_omega cfg a omega)]" "[]"]
  by (simp add: loop_step)

section \<open>One revolution on finite values\<close>

lemma DEG_Fin: "DEG = Fin (180 / pi)"
  by (simp add: DEG_def)

lemma spec_meanMotion_pos: "0 < a \<Longrightarrow> 0 < spec_meanMotion a"
  by (simp add: spec_meanMotion_def)

lemma spec_period_pos: "0 < a \<Longrightarrow> 0 < spec_period a"
  by (simp add: spec_period_def spec_meanMotion_pos)

lemma meanMotion_Fin: "0 < a \<Longrightarrow> meanMotion (Fin a) = Fin (spec_meanMotion a)"
proof -
  assume "0 < a"
  then have "\<not> 3.986004418 * 10 ^ 14 / a ^ 3 < 0" by (simp add: not_less)
  with \<open>0 < a\<close> show ?thesis
    by (simp add: meanMotion_def MU_def spec_meanMotion_def)
qed

lemma orbitalPeriod_Fin: "0 < a \<Longrightarrow> orbitalPeriod (Fin a) = Fin (spec_period a)"
  using spec_meanMotion_pos [of a]
  by (simp add: orbitalPeriod_def meanMotion_Fin spec_period_def)

lemma raanDriftRate_Fin:
  assumes "0 < a" and "e * e \<noteq> 1"
  shows "raanDriftRate (Fin a) (Fin e) (Fin i) = Fin (spec_raanRate a e i)"
  using assms
  by (simp add: raanDriftRate_def meanMotion_Fin Let_def J2_def R_E_def jsub_def
      spec_raanRate_def)

lemma perigeeDriftRate_Fin:
  assumes "0 < a" and "e * e \<noteq> 1"
  shows "perigeeDriftRate (Fin a) (Fin e) (Fin i) = Fin (spec_perigeeRate a e i)"
  using assms
  by (simp add: perigeeDriftRate_def meanMotion_Fin Let_def J2_def R_E_def jsub_def
      spec_perigeeRate_def)

lemma semiMajorAxisDecay_Fin:
  assumes "0 \<le> a" and "m \<noteq> 0"
  shows "semiMajorAxisDecay (Fin a) (Fin A) (Fin m) (Fin cd)
         = Fin (- cd * (A / m) * (1.225 * exp (- (a - 6378137) / 8500))
                * sqrt (3.986004418 * 10 ^ 14 * a))"
proof -
  have "\<not> 3.986004418 * 10 ^ 14 * a < 0" using assms(1) by (simp add: not_less)
  then show ?thesis using assms(2)
    by (simp add: semiMajorAxisDecay_def Let_def jsub_def R_E_def MU_def density_Fin)
qed

lemma next_a_no_drag:
  assumes "orbit_config.area cfg = Fin 0" and "orbit_config.mass cfg = Fin m" and "m \<noteq> 0"
    and "dragCoeff_of cfg = Fin cd" and "0 < a"
  shows "next_a cfg (Fin a) = Fin a"
  using assms
  by (simp add: next_a_def semiMajorAxisDecay_Fin orbitalPeriod_Fin)

lemma next_Omega_Fin:
  assumes "eccentricity_of cfg = Fin e" and "e * e \<noteq> 1"
    and "orbit_config.inclination cfg = Fin i" and "0 < a"
  shows "next_Omega cfg (Fin a) (Fin x) = Fin (x + spec_raanRate a e i * spec_period a)"
  using assms by (simp add: next_Omega_def raanDriftRate_Fin orbitalPeriod_Fin)

lemma next_omega_Fin:
  assumes "eccentricity_of cfg = Fin e" and "e * e \<noteq> 1"
    and "orbit_config.inclination cfg = Fin i" and "0 < a"
  shows "next_omega cfg (Fin a) (Fin x) = Fin (x + spec_perigeeRate a e i * spec_period a)"
  using assms by (simp add: next_omega_def perigeeDriftRate_Fin orbitalPeriod_Fin)

lemma pushed_Fin:
  "pushed N (Fin a) (Fin x) (Fin y)
   = \<lparr> orbit = N, semiMajorAxis = Fin a, altitude = Fin (a - 6378137),
       raanDeg = Fin (x * (180 / pi)), perigeeDeg = Fin (y * (180 / pi)) \<rparr>"
  by (simp add: pushed_def DEG_Fin jsub_def R_E_def)

text \<open>The history of a run without drag, from any pass of the loop on.\<close>

lemma loop_no_drag:
  assumes "orbit_config.area cfg = Fin 0" and "orbit_config.mass cfg = Fin m" and "m \<noteq> 0"
    and "dragCoeff_of cfg = Fin cd"
    and "eccentricity_of cfg = Fin e" and "e * e \<noteq> 1"
    and "orbit_config.inclination cfg = Fin i" and "0 < a"
  shows "propagate_loop cfg N (Fin a) (Fin x) (Fin y) []
         = map (\<lambda>k. \<lparr> orbit = k, semiMajorAxis = Fin a, altitude = Fin (a - 6378137),
                        raanDeg = Fin ((x + (real k + 1 - real N)
                                          * (spec_raanRate a e i * spec_period a)) * (180 / pi)),
                        perigeeDeg = Fin ((y + (real k + 1 - real N)
                                          * (spec_perigeeRate a e i * spec_period a)) * (180 / pi)) \<rparr>)
             [N ..< nat \<lceil>revolutions_of cfg\<rceil>]"
proof (induction "nat \<lceil>revolutions_of cfg\<rceil> - N" arbitrary: N x y)
  case 0
  then have "\<not> real N < revolutions_of cfg" by linarith
  moreover from 0 have "[N ..< nat \<lceil>revolutions_of cfg\<rceil>] = []" by simp
  ultimately show ?case by (simp add: loop_stop)
next
  case (Suc n)
  then have lt: "N < nat \<lceil>revolutions_of cfg\<rceil>" by simp
  then have run: "real N < revolutions_of cfg" by linarith
  have n: "n = nat \<lceil>revolutions_of cfg\<rceil> - Suc N" using Suc.hyps(2) by simp
  have a': "next_a cfg (Fin a) = Fin a"
    using assms(1,2,3,4,8) by (rule next_a_no_drag)
  have O': "next_Omega cfg (Fin a) (Fin x) = Fin (x + spec_raanRate a e i * spec_period a)"
    using assms(5,6,7,8) by (rule next_Omega_Fin)
  have w': "next_omega cfg (Fin a) (Fin y) = Fin (y + spec_perigeeRate a e i * spec_period a)"
    using assms(5,6,7,8) by (rule next_omega_Fin)
  show ?case
    unfolding loop_unfold [OF run] a' O' w' Suc.hyps(1) [OF n] upt_conv_Cons [OF lt]
    by (simp add: pushed_Fin algebra_simps add_divide_distrib)
qed

section \<open>Propagation without drag\<close>

text \<open>
  C5. For every configuration with area 0 and every revolution count, \<open>propagateOrbit\<close>
  leaves the semi-major axis at its initial value in all snapshots, while the RAAN and the
  argument of perigee advance each revolution by the J2 rate times the period. The
  configuration is one of the data model: a positive finite semi-major axis, a nonzero
  mass, an eccentricity whose square is not 1.
\<close>

theorem propagateOrbit_no_drag:
  assumes "orbit_config.semiMajorAxis cfg = Fin a" and "0 < a"
    and "orbit_config.area cfg = Fin 0"
    and "orbit_config.mass cfg = Fin m" and "m \<noteq> 0"
    and "dragCoeff_of cfg = Fin cd"
    and "eccentricity_of cfg = Fin e" and "e * e \<noteq> 1"
    and "orbit_config.inclination cfg = Fin i"
  shows "length (propagateOrbit cfg) = nat \<lceil>revolutions_of cfg\<rceil>
         \<and> (\<forall>k < length (propagateOrbit cfg).
               snapshot.semiMajorAxis (propagateOrbit cfg ! k) = Fin a
               \<and> raanDeg (propagateOrbit cfg ! k)
                 = Fin ((real k + 1) * (spec_raanRate a e i * spec_period a) * (180 / pi))
               \<and> perigeeDeg (propagateOrbit cfg ! k)
                 = Fin ((real k + 1) * (spec_perigeeRate a e i * spec_period a) * (180 / pi)))"
proof -
  have "propagateOrbit cfg = propagate_loop cfg 0 (Fin a) (Fin 0) (Fin 0) []"
    by (simp add: propagateOrbit_def assms(1))
  also have "\<dots> = map (\<lambda>k. \<lparr> orbit = k, semiMajorAxis = Fin a, altitude = Fin (a - 6378137),
                        raanDeg = Fin ((0 + (real k + 1 - real 0)
                                          * (spec_raanRate a e i * spec_period a)) * (180 / pi)),
                        perigeeDeg = Fin ((0 + (real k + 1 - real 0)
                                          * (spec_perigeeRate a e i * spec_period a)) * (180 / pi)) \<rparr>)
             [0 ..< nat \<lceil>revolutions_of cfg\<rceil>]"
    using assms(3,4,5,6,7,8,9,2) by (rule loop_no_drag)
  finally show ?thesis by simp
qed

theorem propagateOrbit_no_drag_witness:
  "(0::real) < 7978137 \<and> (75::real) \<noteq> 0 \<and> (0::real) * 0 \<noteq> 1
   \<and> length (propagateOrbit \<lparr> orbit_config.semiMajorAxis = Fin 7978137, eccentricity = None,
        inclination = Fin 0, orbit_config.area = Fin 0, orbit_config.mass = Fin 75, dragCoeff = None,
        revolutions = Some 2 \<rparr>) = 2
   \<and> snapshot.semiMajorAxis (propagateOrbit \<lparr> orbit_config.semiMajorAxis = Fin 7978137,
        eccentricity = None, inclination = Fin 0, orbit_config.area = Fin 0, orbit_config.mass = Fin 75,
        dragCoeff = None, revolutions = Some 2 \<rparr> ! 1) = Fin 7978137
   \<and> raanDeg (propagateOrbit \<lparr> orbit_config.semiMajorAxis = Fin 7978137,
        eccentricity = None, inclination = Fin 0, orbit_config.area = Fin 0, orbit_config.mass = Fin 75,
        dragCoeff = None, revolutions = Some 2 \<rparr> ! 1)
     = Fin (2 * (spec_raanRate 7978137 0 0 * spec_period 7978137) * (180 / pi))"
  using propagateOrbit_no_drag [of "\<lparr> orbit_config.semiMajorAxis = Fin 7978137, eccentricity = None,
        inclination = Fin 0, orbit_config.area = Fin 0, orbit_config.mass = Fin 75, dragCoeff = None,
        revolutions = Some 2 \<rparr>" 7978137 75 "2.2" 0 0]
  by (simp add: dragCoeff_of_def eccentricity_of_def revolutions_of_def)

section \<open>The accumulators start at zero\<close>

text \<open>
  C9. In every call of \<open>propagateOrbit\<close> the RAAN and argument-of-perigee accumulators
  start at 0 and the caller cannot supply them (the configuration has no field for
  them); so the first snapshot's \<open>raanDeg\<close> and \<open>perigeeDeg\<close> are one revolution's
  drift from zero, rate times period, in degrees.
\<close>

theorem propagateOrbit_accumulators_start_at_zero:
  assumes "0 < revolutions_of cfg"
  shows "propagateOrbit cfg \<noteq> []
         \<and> raanDeg (hd (propagateOrbit cfg))
           = jmul (jadd (Fin 0)
                     (jmul (raanDriftRate (orbit_config.semiMajorAxis cfg) (eccentricity_of cfg)
                              (orbit_config.inclination cfg))
                           (orbitalPeriod (orbit_config.semiMajorAxis cfg)))) DEG
         \<and> perigeeDeg (hd (propagateOrbit cfg))
           = jmul (jadd (Fin 0)
                     (jmul (perigeeDriftRate (orbit_config.semiMajorAxis cfg)
                              (eccentricity_of cfg) (orbit_config.inclination cfg))
                           (orbitalPeriod (orbit_config.semiMajorAxis cfg)))) DEG"
proof -
  have "real 0 < revolutions_of cfg" using assms by simp
  then show ?thesis
    by (simp add: propagateOrbit_def loop_unfold pushed_def next_Omega_def next_omega_def)
qed

theorem propagateOrbit_accumulators_start_at_zero_witness:
  "0 < revolutions_of \<lparr> orbit_config.semiMajorAxis = Fin 7978137, eccentricity = None,
        inclination = Fin 0, orbit_config.area = Fin 400, orbit_config.mass = Fin 75, dragCoeff = None,
        revolutions = None \<rparr>
   \<and> raanDeg (hd (propagateOrbit \<lparr> orbit_config.semiMajorAxis = Fin 7978137, eccentricity = None,
        inclination = Fin 0, orbit_config.area = Fin 400, orbit_config.mass = Fin 75, dragCoeff = None,
        revolutions = None \<rparr>))
     = jmul (jmul (raanDriftRate (Fin 7978137) (Fin 0) (Fin 0)) (orbitalPeriod (Fin 7978137)))
         DEG"
proof -
  have h: "0 < revolutions_of \<lparr> orbit_config.semiMajorAxis = Fin 7978137, eccentricity = None,
        inclination = Fin 0, orbit_config.area = Fin 400, orbit_config.mass = Fin 75, dragCoeff = None,
        revolutions = None \<rparr>"
    by (simp add: revolutions_of_def)
  from propagateOrbit_accumulators_start_at_zero [OF h]
  have "raanDeg (hd (propagateOrbit \<lparr> orbit_config.semiMajorAxis = Fin 7978137,
          eccentricity = None, inclination = Fin 0, orbit_config.area = Fin 400,
          orbit_config.mass = Fin 75, dragCoeff = None, revolutions = None \<rparr>))
        = jmul (jmul (raanDriftRate (Fin 7978137) (Fin 0) (Fin 0))
                  (orbitalPeriod (Fin 7978137))) DEG"
    by (simp add: eccentricity_of_def)
  with h show ?thesis by simp
qed

section \<open>The direction of the nodal drift\<close>

lemma meanMotion_neg: "a < 0 \<Longrightarrow> meanMotion (Fin a) = NaN"
proof -
  assume "a < 0"
  then have "a ^ 3 < 0" by (simp add: power_less_zero_eq)
  then have "3.986004418 * 10 ^ 14 / a ^ 3 < 0" by (simp add: divide_neg_pos divide_pos_neg)
  with \<open>a ^ 3 < 0\<close> show ?thesis by (simp add: meanMotion_def MU_def)
qed

lemma next_Omega_neg: "a < 0 \<Longrightarrow> next_Omega cfg (Fin a) x = NaN"
  by (simp add: next_Omega_def raanDriftRate_def meanMotion_neg Let_def)

lemma spec_raanRate_neg:
  assumes "0 < a" and "e * e \<noteq> 1" and "0 < cos i"
  shows "spec_raanRate a e i < 0"
proof -
  have n: "0 < spec_meanMotion a" using assms(1) by (rule spec_meanMotion_pos)
  have d: "0 < (1 - e * e)\<^sup>2" using assms(2) by simp
  have q: "0 < (6378137 / a)\<^sup>2" using assms(1) by simp
  have "0 < 1.5 * (1.08263 / 10 ^ 3) * (6378137 / a)\<^sup>2 * (spec_meanMotion a * cos i)
            / (1 - e * e)\<^sup>2"
    using n d q assms(3) by (intro divide_pos_pos mult_pos_pos) simp_all
  then show ?thesis by (simp add: spec_raanRate_def)
qed

lemma spec_raanRate_pos:
  assumes "0 < a" and "e * e \<noteq> 1" and "cos i < 0"
  shows "0 < spec_raanRate a e i"
proof -
  have n: "0 < spec_meanMotion a" using assms(1) by (rule spec_meanMotion_pos)
  have d: "0 < (1 - e * e)\<^sup>2" using assms(2) by simp
  have q: "0 < (6378137 / a)\<^sup>2" using assms(1) by simp
  have "0 < 1.5 * (1.08263 / 10 ^ 3) * (6378137 / a)\<^sup>2 * (spec_meanMotion a * (- cos i))
            / (1 - e * e)\<^sup>2"
    using n d q assms(3) by (intro divide_pos_pos mult_pos_pos) simp_all
  then show ?thesis by (simp add: spec_raanRate_def)
qed

lemma loop_raan_decreasing:
  assumes "eccentricity_of cfg = Fin e" and "e * e \<noteq> 1"
    and "orbit_config.inclination cfg = Fin i" and "0 < cos i"
  shows "0 < a \<Longrightarrow>
         \<forall>s \<in> set (propagate_loop cfg N (Fin a) (Fin x) w []).
            \<exists>r>0. snapshot.semiMajorAxis s = Fin r \<Longrightarrow>
         sorted_wrt jgt (map raanDeg (propagate_loop cfg N (Fin a) (Fin x) w []))
         \<and> (\<forall>s \<in> set (propagate_loop cfg N (Fin a) (Fin x) w []).
               jgt (Fin (x * (180 / pi))) (raanDeg s))"
proof (induction "nat \<lceil>revolutions_of cfg\<rceil> - N" arbitrary: N a x w)
  case 0
  then have "\<not> real N < revolutions_of cfg" by linarith
  then show ?case by (simp add: loop_stop)
next
  case (Suc n)
  then have "N < nat \<lceil>revolutions_of cfg\<rceil>" by simp
  then have run: "real N < revolutions_of cfg" by linarith
  have n: "n = nat \<lceil>revolutions_of cfg\<rceil> - Suc N" using Suc.hyps(2) by simp
  define x1 where "x1 = x + spec_raanRate a e i * spec_period a"
  define w1 where "w1 = next_omega cfg (Fin a) w"
  have O': "next_Omega cfg (Fin a) (Fin x) = Fin x1"
    using next_Omega_Fin [OF assms(1,2,3) Suc.prems(1)] by (simp add: x1_def)
  have "spec_raanRate a e i * spec_period a < 0"
    using spec_raanRate_neg [OF Suc.prems(1) assms(2,4)] spec_period_pos [OF Suc.prems(1)]
    by (rule mult_neg_pos)
  then have dec: "x1 < x" by (simp add: x1_def)
  have unf: "propagate_loop cfg N (Fin a) (Fin x) w []
             = pushed N (next_a cfg (Fin a)) (Fin x1) w1
               # propagate_loop cfg (Suc N) (next_a cfg (Fin a)) (Fin x1) w1 []"
    using loop_unfold [OF run, of "Fin a" "Fin x" w] by (simp add: O' w1_def)
  from Suc.prems(2) have
    "\<exists>r>0. snapshot.semiMajorAxis (pushed N (next_a cfg (Fin a)) (Fin x1) w1) = Fin r"
    unfolding unf by simp
  then obtain r where r: "0 < r" "next_a cfg (Fin a) = Fin r"
    by (auto simp: pushed_def)
  have unf': "propagate_loop cfg N (Fin a) (Fin x) w []
              = pushed N (Fin r) (Fin x1) w1
                # propagate_loop cfg (Suc N) (Fin r) (Fin x1) w1 []"
    using unf r(2) by simp
  have pos': "\<forall>s \<in> set (propagate_loop cfg (Suc N) (Fin r) (Fin x1) w1 []).
                \<exists>r>0. snapshot.semiMajorAxis s = Fin r"
    using Suc.prems(2) unfolding unf' by simp
  have IH: "sorted_wrt jgt (map raanDeg (propagate_loop cfg (Suc N) (Fin r) (Fin x1) w1 []))
            \<and> (\<forall>s \<in> set (propagate_loop cfg (Suc N) (Fin r) (Fin x1) w1 []).
                  jgt (Fin (x1 * (180 / pi))) (raanDeg s))"
    using Suc.hyps(1) [OF n r(1) pos'] .
  have hd: "raanDeg (pushed N (Fin r) (Fin x1) w1) = Fin (x1 * (180 / pi))"
    by (simp add: pushed_def DEG_Fin)
  have lt': "x1 * (180 / pi) < x * (180 / pi)"
    by (rule mult_strict_right_mono [OF dec]) simp
  show ?case unfolding unf' using IH hd lt' by (auto intro: jgt_Fin_trans)
qed

lemma loop_raan_increasing:
  assumes "eccentricity_of cfg = Fin e" and "e * e \<noteq> 1"
    and "orbit_config.inclination cfg = Fin i" and "cos i < 0"
  shows "0 < a \<Longrightarrow>
         \<forall>s \<in> set (propagate_loop cfg N (Fin a) (Fin x) w []).
            \<exists>r>0. snapshot.semiMajorAxis s = Fin r \<Longrightarrow>
         sorted_wrt jlt (map raanDeg (propagate_loop cfg N (Fin a) (Fin x) w []))
         \<and> (\<forall>s \<in> set (propagate_loop cfg N (Fin a) (Fin x) w []).
               jlt (Fin (x * (180 / pi))) (raanDeg s))"
proof (induction "nat \<lceil>revolutions_of cfg\<rceil> - N" arbitrary: N a x w)
  case 0
  then have "\<not> real N < revolutions_of cfg" by linarith
  then show ?case by (simp add: loop_stop)
next
  case (Suc n)
  then have "N < nat \<lceil>revolutions_of cfg\<rceil>" by simp
  then have run: "real N < revolutions_of cfg" by linarith
  have n: "n = nat \<lceil>revolutions_of cfg\<rceil> - Suc N" using Suc.hyps(2) by simp
  define x1 where "x1 = x + spec_raanRate a e i * spec_period a"
  define w1 where "w1 = next_omega cfg (Fin a) w"
  have O': "next_Omega cfg (Fin a) (Fin x) = Fin x1"
    using next_Omega_Fin [OF assms(1,2,3) Suc.prems(1)] by (simp add: x1_def)
  have "0 < spec_raanRate a e i * spec_period a"
    using spec_raanRate_pos [OF Suc.prems(1) assms(2,4)] spec_period_pos [OF Suc.prems(1)]
    by (rule mult_pos_pos)
  then have inc: "x < x1" by (simp add: x1_def)
  have unf: "propagate_loop cfg N (Fin a) (Fin x) w []
             = pushed N (next_a cfg (Fin a)) (Fin x1) w1
               # propagate_loop cfg (Suc N) (next_a cfg (Fin a)) (Fin x1) w1 []"
    using loop_unfold [OF run, of "Fin a" "Fin x" w] by (simp add: O' w1_def)
  from Suc.prems(2) have
    "\<exists>r>0. snapshot.semiMajorAxis (pushed N (next_a cfg (Fin a)) (Fin x1) w1) = Fin r"
    unfolding unf by simp
  then obtain r where r: "0 < r" "next_a cfg (Fin a) = Fin r"
    by (auto simp: pushed_def)
  have unf': "propagate_loop cfg N (Fin a) (Fin x) w []
              = pushed N (Fin r) (Fin x1) w1
                # propagate_loop cfg (Suc N) (Fin r) (Fin x1) w1 []"
    using unf r(2) by simp
  have pos': "\<forall>s \<in> set (propagate_loop cfg (Suc N) (Fin r) (Fin x1) w1 []).
                \<exists>r>0. snapshot.semiMajorAxis s = Fin r"
    using Suc.prems(2) unfolding unf' by simp
  have IH: "sorted_wrt jlt (map raanDeg (propagate_loop cfg (Suc N) (Fin r) (Fin x1) w1 []))
            \<and> (\<forall>s \<in> set (propagate_loop cfg (Suc N) (Fin r) (Fin x1) w1 []).
                  jlt (Fin (x1 * (180 / pi))) (raanDeg s))"
    using Suc.hyps(1) [OF n r(1) pos'] .
  have hd: "raanDeg (pushed N (Fin r) (Fin x1) w1) = Fin (x1 * (180 / pi))"
    by (simp add: pushed_def DEG_Fin)
  have lt': "x * (180 / pi) < x1 * (180 / pi)"
    by (rule mult_strict_right_mono [OF inc]) simp
  show ?case unfolding unf' using IH hd lt'
    by (auto simp: jlt_def intro: jgt_Fin_trans')
qed

text \<open>
  C6, amended. For every run whose semi-major axis is positive and finite at the start
  and in every snapshot, with the square of the eccentricity not 1: an inclination
  between -90 and 90 degrees gives strictly decreasing RAAN values over the snapshots, and
  an inclination between 90 and 270 degrees strictly increasing ones.
\<close>

theorem raan_monotone:
  assumes "orbit_config.semiMajorAxis cfg = Fin a" and "0 < a"
    and "eccentricity_of cfg = Fin e" and "e * e \<noteq> 1"
    and "orbit_config.inclination cfg = Fin i"
    and "\<forall>s \<in> set (propagateOrbit cfg). \<exists>r>0. snapshot.semiMajorAxis s = Fin r"
  shows "(- (pi / 2) < i \<and> i < pi / 2 \<longrightarrow>
            sorted_wrt jgt (map raanDeg (propagateOrbit cfg)))
         \<and> (pi / 2 < i \<and> i < 3 * pi / 2 \<longrightarrow>
            sorted_wrt jlt (map raanDeg (propagateOrbit cfg)))"
proof (intro conjI impI)
  have eq: "propagateOrbit cfg = propagate_loop cfg 0 (Fin a) (Fin 0) (Fin 0) []"
    by (simp add: propagateOrbit_def assms(1))
  {
    assume "- (pi / 2) < i \<and> i < pi / 2"
    then have c: "0 < cos i" by (simp add: cos_gt_zero_pi)
    show "sorted_wrt jgt (map raanDeg (propagateOrbit cfg))"
      using loop_raan_decreasing [OF assms(3,4,5) c assms(2), of 0 0 "Fin 0"] assms(6)
      unfolding eq by simp
  }
  {
    assume h: "pi / 2 < i \<and> i < 3 * pi / 2"
    then have "0 < cos (i - pi)" by (intro cos_gt_zero_pi) simp_all
    then have c: "cos i < 0" by (simp add: cos_diff)
    show "sorted_wrt jlt (map raanDeg (propagateOrbit cfg))"
      using loop_raan_increasing [OF assms(3,4,5) c assms(2), of 0 0 "Fin 0"] assms(6)
      unfolding eq by simp
  }
qed

lemma no_drag_axis_positive:
  assumes "orbit_config.semiMajorAxis cfg = Fin a" and "0 < a"
    and "orbit_config.area cfg = Fin 0"
    and "orbit_config.mass cfg = Fin m" and "m \<noteq> 0"
    and "dragCoeff_of cfg = Fin cd"
    and "eccentricity_of cfg = Fin e" and "e * e \<noteq> 1"
    and "orbit_config.inclination cfg = Fin i"
  shows "\<forall>s \<in> set (propagateOrbit cfg). \<exists>r>0. snapshot.semiMajorAxis s = Fin r"
proof -
  have "propagateOrbit cfg = propagate_loop cfg 0 (Fin a) (Fin 0) (Fin 0) []"
    by (simp add: propagateOrbit_def assms(1))
  then show ?thesis
    unfolding loop_no_drag [OF assms(3,4,5,6,7,8,9,2)] using assms(2) by auto
qed

theorem raan_monotone_witness:
  "(0::real) < 7978137 \<and> (0::real) * 0 \<noteq> 1
   \<and> - (pi / 2) < 0 \<and> (0::real) < pi / 2
   \<and> sorted_wrt jgt (map raanDeg (propagateOrbit
        \<lparr> orbit_config.semiMajorAxis = Fin 7978137, eccentricity = None,
           inclination = Fin 0, orbit_config.area = Fin 0, orbit_config.mass = Fin 75,
           dragCoeff = None, revolutions = Some 3 \<rparr>))
   \<and> pi / 2 < pi \<and> pi < 3 * pi / 2
   \<and> sorted_wrt jlt (map raanDeg (propagateOrbit
        \<lparr> orbit_config.semiMajorAxis = Fin 7978137, eccentricity = None,
           inclination = Fin pi, orbit_config.area = Fin 0, orbit_config.mass = Fin 75,
           dragCoeff = None, revolutions = Some 3 \<rparr>))"
proof -
  have p0: "\<forall>s \<in> set (propagateOrbit
        \<lparr> orbit_config.semiMajorAxis = Fin 7978137, eccentricity = None,
           inclination = Fin 0, orbit_config.area = Fin 0, orbit_config.mass = Fin 75,
           dragCoeff = None, revolutions = Some 3 \<rparr>).
        \<exists>r>0. snapshot.semiMajorAxis s = Fin r"
    by (rule no_drag_axis_positive [of _ 7978137 75 "2.2" 0 0])
       (simp_all add: dragCoeff_of_def eccentricity_of_def)
  have p1: "\<forall>s \<in> set (propagateOrbit
        \<lparr> orbit_config.semiMajorAxis = Fin 7978137, eccentricity = None,
           inclination = Fin pi, orbit_config.area = Fin 0, orbit_config.mass = Fin 75,
           dragCoeff = None, revolutions = Some 3 \<rparr>).
        \<exists>r>0. snapshot.semiMajorAxis s = Fin r"
    by (rule no_drag_axis_positive [of _ 7978137 75 "2.2" 0 pi])
       (simp_all add: dragCoeff_of_def eccentricity_of_def)
  have d: "sorted_wrt jgt (map raanDeg (propagateOrbit
        \<lparr> orbit_config.semiMajorAxis = Fin 7978137, eccentricity = None,
           inclination = Fin 0, orbit_config.area = Fin 0, orbit_config.mass = Fin 75,
           dragCoeff = None, revolutions = Some 3 \<rparr>))"
    using raan_monotone [of _ 7978137 0 0, OF _ _ _ _ _ p0]
    by (simp add: eccentricity_of_def)
  have i: "sorted_wrt jlt (map raanDeg (propagateOrbit
        \<lparr> orbit_config.semiMajorAxis = Fin 7978137, eccentricity = None,
           inclination = Fin pi, orbit_config.area = Fin 0, orbit_config.mass = Fin 75,
           dragCoeff = None, revolutions = Some 3 \<rparr>))"
    using raan_monotone [of _ 7978137 0 pi, OF _ _ _ _ _ p1]
    by (simp add: eccentricity_of_def)
  show ?thesis using d i by simp
qed

text \<open>One revolution of the Echo I balloon from 8.5 km altitude.\<close>

lemma decay_below_zero:
  "6386637
   + (- 2.2 * (400 / 75) * (1.225 * exp (- (6386637 - 6378137) / 8500))
        * sqrt (3.986004418 * 10 ^ 14 * 6386637)) * spec_period 6386637 < (0::real)"
proof -
  have "exp (1::real) \<le> 3" by (rule exp_le)
  then have "inverse 3 \<le> inverse (exp (1::real))"
    by (intro le_imp_inverse_le) simp_all
  then have e: "1 / 3 \<le> exp (- 1 :: real)" by (simp add: exp_minus inverse_eq_divide)
  have "(10 ^ 10)\<^sup>2 \<le> (3.986004418 * 10 ^ 14 * 6386637 :: real)" by simp
  then have s: "10 ^ 10 \<le> sqrt (3.986004418 * 10 ^ 14 * 6386637 :: real)"
    by (rule real_le_rsqrt)
  have "sqrt (3.986004418 * 10 ^ 14 / 6386637 ^ 3 :: real) \<le> 1" by simp
  moreover have "0 < sqrt (3.986004418 * 10 ^ 14 / 6386637 ^ 3 :: real)" by simp
  ultimately have "2 * pi / 1 \<le> 2 * pi / sqrt (3.986004418 * 10 ^ 14 / 6386637 ^ 3 :: real)"
    using pi_gt_zero by (intro divide_left_mono) simp_all
  then have t: "4 \<le> spec_period 6386637"
    using pi_ge_two by (simp add: spec_period_def spec_meanMotion_def)
  define P where
    "P = exp (- 1 :: real) * sqrt (3.986004418 * 10 ^ 14 * 6386637) * spec_period 6386637"
  have "1 / 3 * 10 ^ 10 * 4 \<le> P"
    unfolding P_def using e s t by (intro mult_mono) simp_all
  then have "6386637 - 2.2 * (400 / 75) * 1.225 * P < 0" by simp
  moreover have "6386637
     + (- 2.2 * (400 / 75) * (1.225 * exp (- (6386637 - 6378137) / 8500))
          * sqrt (3.986004418 * 10 ^ 14 * 6386637)) * spec_period 6386637
     = 6386637 - 2.2 * (400 / 75) * 1.225 * P"
    by (simp add: P_def)
  ultimately show ?thesis by (simp only:)
qed

lemma two_revolutions_NaN:
  assumes "revolutions_of cfg = 2" and "orbit_config.semiMajorAxis cfg = Fin a"
    and "next_a cfg (Fin a) = Fin r" and "r < 0"
  shows "map raanDeg (propagateOrbit cfg) = [jmul (next_Omega cfg (Fin a) (Fin 0)) DEG, NaN]"
proof -
  have run: "real 0 < revolutions_of cfg" "real (Suc 0) < revolutions_of cfg"
    and stop: "\<not> real (Suc (Suc 0)) < revolutions_of cfg"
    by (simp_all add: assms(1))
  show ?thesis
    unfolding propagateOrbit_def assms(2) loop_unfold [OF run(1)] assms(3)
      loop_unfold [OF run(2)] loop_stop [OF stop] next_Omega_neg [OF assms(4)]
    by (simp add: pushed_def)
qed

text \<open>
  C6. The claim: with an inclination below 90 degrees the RAAN values of successive
  snapshots are strictly decreasing. The loop does not stop when drag takes the
  semi-major axis below zero: the Echo I balloon (area 400, mass 75) started at 8.5 km
  altitude has a negative semi-major axis after one revolution, the mean motion of the
  second revolution is the square root of a negative number, and the second RAAN is NaN.
\<close>

theorem raan_not_decreasing_after_decay:
  "47 * pi / 180 < pi / 2
   \<and> \<not> sorted_wrt jgt (map raanDeg (propagateOrbit
        \<lparr> orbit_config.semiMajorAxis = Fin 6386637, eccentricity = None,
           inclination = Fin (47 * pi / 180), orbit_config.area = Fin 400,
           orbit_config.mass = Fin 75, dragCoeff = None, revolutions = Some 2 \<rparr>))"
proof -
  have "next_a \<lparr> orbit_config.semiMajorAxis = Fin 6386637, eccentricity = None,
           inclination = Fin (47 * pi / 180), orbit_config.area = Fin 400,
           orbit_config.mass = Fin 75, dragCoeff = None, revolutions = Some 2 \<rparr>
          (Fin 6386637)
        = Fin (6386637
               + (- 2.2 * (400 / 75) * (1.225 * exp (- (6386637 - 6378137) / 8500))
                    * sqrt (3.986004418 * 10 ^ 14 * 6386637)) * spec_period 6386637)"
    by (simp add: next_a_def dragCoeff_of_def semiMajorAxisDecay_Fin orbitalPeriod_Fin)
  then obtain r where r:
    "next_a \<lparr> orbit_config.semiMajorAxis = Fin 6386637, eccentricity = None,
           inclination = Fin (47 * pi / 180), orbit_config.area = Fin 400,
           orbit_config.mass = Fin 75, dragCoeff = None, revolutions = Some 2 \<rparr>
          (Fin 6386637) = Fin r" "r < 0"
    using decay_below_zero by blast
  have "map raanDeg (propagateOrbit
        \<lparr> orbit_config.semiMajorAxis = Fin 6386637, eccentricity = None,
           inclination = Fin (47 * pi / 180), orbit_config.area = Fin 400,
           orbit_config.mass = Fin 75, dragCoeff = None, revolutions = Some 2 \<rparr>)
        = [jmul (next_Omega \<lparr> orbit_config.semiMajorAxis = Fin 6386637, eccentricity = None,
           inclination = Fin (47 * pi / 180), orbit_config.area = Fin 400,
           orbit_config.mass = Fin 75, dragCoeff = None, revolutions = Some 2 \<rparr>
             (Fin 6386637) (Fin 0)) DEG, NaN]"
    by (rule two_revolutions_NaN [OF _ _ r]) (simp_all add: revolutions_of_def)
  then show ?thesis using pi_gt_zero by simp
qed

end
